theory Spec2Isabelle
  imports Complex_Main
begin

section \<open>Geometry core of \<open>src/core/sprites/Sprite.js\<close>\<close>

text \<open>
  The embedding follows \<^verbatim>\<open>Sprite.js\<close> function by function. JavaScript numbers are
  modelled by \<^typ>\<open>real\<close>: arithmetic is exact, there is no rounding (neither of doubles nor
  of the \<^verbatim>\<open>Float32Array\<close> stores), no \<^verbatim>\<open>NaN\<close> and no infinity. A division by a
  logical dimension of zero is therefore outside the model, and every theorem that
  speaks about such a quotient assumes the dimension to be non-zero.

  Record fields carry a prefix where the source's name is a single letter or a common
  word: \<open>pt_\<close> for \<^verbatim>\<open>Point\<close>, \<open>rect_\<close> for \<^verbatim>\<open>Rectangle\<close>, \<open>mat_\<close> for \<^verbatim>\<open>Matrix\<close>;
  \<open>priv_\<close> stands for the leading underscore of a private member
  (\<^verbatim>\<open>_texture\<close>, \<^verbatim>\<open>_width\<close>, \<^verbatim>\<open>_bounds\<close>, ...).
\<close>

subsection \<open>Data\<close>

record Point =
  pt_x :: real
  pt_y :: real

record Rectangle =
  rect_x :: real
  rect_y :: real
  rect_width :: real
  rect_height :: real

text \<open>The affine map \<open>(a, b, c, d, tx, ty)\<close> of \<^verbatim>\<open>transform.worldTransform\<close>.\<close>

record Matrix =
  mat_a :: real
  mat_b :: real
  mat_c :: real
  mat_d :: real
  mat_tx :: real
  mat_ty :: real

text \<open>A texture, as far as the sprite reads it: \<^verbatim>\<open>orig\<close> and the optional \<^verbatim>\<open>trim\<close>.\<close>

record Texture =
  orig :: Rectangle
  trim :: "Rectangle option"

text \<open>
  \<^verbatim>\<open>_currentBounds\<close> is a reference: \<^verbatim>\<open>null\<close>, the sprite's own \<^verbatim>\<open>_bounds\<close> object
  (what \<^verbatim>\<open>getBounds\<close> stores there), or some other rectangle object.
\<close>

datatype BoundsRef = Null | OwnBounds | OtherBounds Rectangle

text \<open>
  The members of a sprite that the geometry code reads or writes. \<open>children_length\<close> is
  \<^verbatim>\<open>this.children.length\<close>; \<open>vertexData\<close> is the \<^verbatim>\<open>Float32Array(16)\<close> of the
  constructor, a list that the code never resizes; \<open>worldTransform\<close> is the one matrix
  that the code reaches as \<^verbatim>\<open>this.transform.worldTransform\<close> and as
  \<^verbatim>\<open>this.worldTransform\<close>.
\<close>

record Sprite =
  anchor :: Point
  scale :: Point
  priv_texture :: Texture
  priv_width :: real
  priv_height :: real
  worldTransform :: Matrix
  vertexData :: "real list"
  textureDirty :: bool
  vertexDirty :: bool
  children_length :: nat
  priv_bounds :: Rectangle
  priv_currentBounds :: BoundsRef

subsection \<open>JavaScript helpers\<close>

text \<open>A number is truthy unless it is zero (\<^verbatim>\<open>NaN\<close> is not modelled).\<close>

definition truthy :: "real \<Rightarrow> bool" where
  "truthy n = (n \<noteq> 0)"

text \<open>\<^verbatim>\<open>u || v\<close> on numbers.\<close>

definition js_or :: "real \<Rightarrow> real \<Rightarrow> real" where
  "js_or u v = (if truthy u then u else v)"

text \<open>
  Modelled from the spec: \<^verbatim>\<open>utils.sign\<close> (the \<^verbatim>\<open>utils\<close> module is not part of the
  sources at hand). The spec's "\<open>sign(scaleX)\<close> or 1 if \<open>scaleX == 0\<close>" makes it
  the sign of its argument, zero at zero.
\<close>

definition utils_sign :: "real \<Rightarrow> real" where
  "utils_sign n = (if truthy n then (if n < 0 then - 1 else 1) else 0)"

subsection \<open>The \<^verbatim>\<open>width\<close> and \<^verbatim>\<open>height\<close> accessors\<close>

definition get_width :: "Sprite \<Rightarrow> real" where
  "get_width s = \<bar>pt_x (scale s)\<bar> * rect_width (orig (priv_texture s))"

definition set_width :: "real \<Rightarrow> Sprite \<Rightarrow> Sprite" where
  "set_width v s =
     (let sign = js_or (utils_sign (pt_x (scale s))) 1 in
      s\<lparr>scale := (scale s)\<lparr>pt_x := sign * v / rect_width (orig (priv_texture s))\<rparr>,
        priv_width := v\<rparr>)"

definition get_height :: "Sprite \<Rightarrow> real" where
  "get_height s = \<bar>pt_y (scale s)\<bar> * rect_height (orig (priv_texture s))"

definition set_height :: "real \<Rightarrow> Sprite \<Rightarrow> Sprite" where
  "set_height v s =
     (let sign = js_or (utils_sign (pt_y (scale s))) 1 in
      s\<lparr>scale := (scale s)\<lparr>pt_y := sign * v / rect_height (orig (priv_texture s))\<rparr>,
        priv_height := v\<rparr>)"

subsection \<open>\<^verbatim>\<open>_onTextureUpdate\<close>\<close>

definition onTextureUpdate :: "Sprite \<Rightarrow> Sprite" where
  "onTextureUpdate s0 =
     (let s1 = s0\<lparr>textureDirty := True\<rparr>;
          s2 = (if truthy (priv_width s1)
                then s1\<lparr>scale := (scale s1)\<lparr>pt_x :=
                       utils_sign (pt_x (scale s1)) * priv_width s1
                         / rect_width (orig (priv_texture s1))\<rparr>\<rparr>
                else s1);
          s3 = (if truthy (priv_height s2)
                then s2\<lparr>scale := (scale s2)\<lparr>pt_y :=
                       utils_sign (pt_y (scale s2)) * priv_height s2
                         / rect_height (orig (priv_texture s2))\<rparr>\<rparr>
                else s2)
      in s3)"

subsection \<open>\<^verbatim>\<open>calculateVertices\<close>\<close>

definition calculateVertices :: "Sprite \<Rightarrow> Sprite" where
  "calculateVertices s =
     (let texture = priv_texture s;
          wt = worldTransform s;
          a = mat_a wt; b = mat_b wt; c = mat_c wt; d = mat_d wt;
          tx = mat_tx wt; ty = mat_ty wt;
          vd = vertexData s;
          origF = orig texture;
          (w0, w1, h0, h1) =
            (case trim texture of
               Some tr \<Rightarrow>
                 (let w1 = rect_x tr - pt_x (anchor s) * rect_width origF;
                      w0 = w1 + rect_width tr;
                      h1 = rect_y tr - pt_y (anchor s) * rect_height origF;
                      h0 = h1 + rect_height tr
                  in (w0, w1, h0, h1))
             | None \<Rightarrow>
                 (let w0 = (rect_width origF) * (1 - pt_x (anchor s));
                      w1 = (rect_width origF) * - pt_x (anchor s);
                      h0 = rect_height origF * (1 - pt_y (anchor s));
                      h1 = rect_height origF * - pt_y (anchor s)
                  in (w0, w1, h0, h1)))
      in s\<lparr>vertexData := vd
           [0 := a * w1 + c * h1 + tx,
            1 := d * h1 + b * w1 + ty,
            2 := a * w0 + c * h1 + tx,
            3 := d * h1 + b * w0 + ty,
            4 := a * w0 + c * h0 + tx,
            5 := d * h0 + b * w0 + ty,
            6 := a * w1 + c * h0 + tx,
            7 := d * h0 + b * w1 + ty]\<rparr>)"

subsection \<open>\<^verbatim>\<open>calculateBoundsVertices\<close>\<close>

text \<open>
  The copy branch assigns slot by slot, each assignment reading the array as the
  previous one left it.
\<close>

definition calculateBoundsVertices :: "Sprite \<Rightarrow> Sprite" where
  "calculateBoundsVertices s =
     (let texture = priv_texture s;
          trimF = trim texture;
          vd = vertexData s;
          origF = orig texture
      in if (case trimF of
               None \<Rightarrow> True
             | Some tr \<Rightarrow> rect_width tr = rect_width origF \<and> rect_height tr = rect_height origF)
         then
           (let vd = vd[8 := vd ! 0];
                vd = vd[9 := vd ! 1];
                vd = vd[10 := vd ! 2];
                vd = vd[11 := vd ! 3];
                vd = vd[12 := vd ! 4];
                vd = vd[13 := vd ! 5];
                vd = vd[14 := vd ! 6];
                vd = vd[15 := vd ! 7]
            in s\<lparr>vertexData := vd\<rparr>)
         else
           (let wt = worldTransform s;
                a = mat_a wt; b = mat_b wt; c = mat_c wt; d = mat_d wt;
                tx = mat_tx wt; ty = mat_ty wt;
                w0 = (rect_width origF) * (1 - pt_x (anchor s));
                w1 = (rect_width origF) * - pt_x (anchor s);
                h0 = rect_height origF * (1 - pt_y (anchor s));
                h1 = rect_height origF * - pt_y (anchor s)
            in s\<lparr>vertexData := vd
                 [8 := a * w1 + c * h1 + tx,
                  9 := d * h1 + b * w1 + ty,
                  10 := a * w0 + c * h1 + tx,
                  11 := d * h1 + b * w0 + ty,
                  12 := a * w0 + c * h0 + tx,
                  13 := d * h0 + b * w0 + ty,
                  14 := a * w1 + c * h0 + tx,
                  15 := d * h0 + b * w1 + ty]\<rparr>))"

subsection \<open>\<^verbatim>\<open>getBounds\<close>\<close>

text \<open>
  \<^verbatim>\<open>this.containerGetBounds()\<close> belongs to \<^verbatim>\<open>Container\<close>, which is not part of the
  sources at hand: it is a parameter, the rectangle it returns for the sprite. The
  result is the rectangle that the returned reference \<^verbatim>\<open>_currentBounds\<close> points to,
  together with the sprite after the call.
\<close>

definition getBounds :: "(Sprite \<Rightarrow> Rectangle) \<Rightarrow> Sprite \<Rightarrow> Rectangle \<times> Sprite" where
  "getBounds containerGetBounds s0 =
     (case priv_currentBounds s0 of
        OtherBounds r \<Rightarrow> (r, s0)
      | OwnBounds \<Rightarrow> (priv_bounds s0, s0)
      | Null \<Rightarrow>
         (let s1 = calculateBoundsVertices (s0\<lparr>vertexDirty := False\<rparr>);
              vd = vertexData s1;
              x1 = vd ! 8; y1 = vd ! 9;
              x2 = vd ! 10; y2 = vd ! 11;
              x3 = vd ! 12; y3 = vd ! 13;
              x4 = vd ! 14; y4 = vd ! 15;
              minX = x1;
              minX = (if x2 < minX then x2 else minX);
              minX = (if x3 < minX then x3 else minX);
              minX = (if x4 < minX then x4 else minX);
              minY = y1;
              minY = (if y2 < minY then y2 else minY);
              minY = (if y3 < minY then y3 else minY);
              minY = (if y4 < minY then y4 else minY);
              maxX = x1;
              maxX = (if x2 > maxX then x2 else maxX);
              maxX = (if x3 > maxX then x3 else maxX);
              maxX = (if x4 > maxX then x4 else maxX);
              maxY = y1;
              maxY = (if y2 > maxY then y2 else maxY);
              maxY = (if y3 > maxY then y3 else maxY);
              maxY = (if y4 > maxY then y4 else maxY);
              (minX, maxX, minY, maxY) =
                (if children_length s1 \<noteq> 0
                 then
                   (let childBounds = containerGetBounds s1;
                        w0 = rect_x childBounds;
                        w1 = rect_x childBounds + rect_width childBounds;
                        h0 = rect_y childBounds;
                        h1 = rect_y childBounds + rect_height childBounds;
                        minX = (if minX < w0 then minX else w0);
                        minY = (if minY < h0 then minY else h0);
                        maxX = (if maxX > w1 then maxX else w1);
                        maxY = (if maxY > h1 then maxY else h1)
                    in (minX, maxX, minY, maxY))
                 else (minX, maxX, minY, maxY));
              bounds = priv_bounds s1;
              bounds = bounds\<lparr>rect_x := minX\<rparr>;
              bounds = bounds\<lparr>rect_width := maxX - minX\<rparr>;
              bounds = bounds\<lparr>rect_y := minY\<rparr>;
              bounds = bounds\<lparr>rect_height := maxY - minY\<rparr>;
              s2 = s1\<lparr>priv_bounds := bounds, priv_currentBounds := OwnBounds\<rparr>
          in (priv_bounds s2, s2)))"

subsection \<open>\<^verbatim>\<open>getLocalBounds\<close>\<close>

definition getLocalBounds :: "Sprite \<Rightarrow> Rectangle \<times> Sprite" where
  "getLocalBounds s0 =
     (let s1 = s0\<lparr>priv_bounds := (priv_bounds s0)
                 \<lparr>rect_x := - rect_width (orig (priv_texture s0)) * pt_x (anchor s0)\<rparr>\<rparr>;
          s2 = s1\<lparr>priv_bounds := (priv_bounds s1)
                 \<lparr>rect_y := - rect_height (orig (priv_texture s1)) * pt_y (anchor s1)\<rparr>\<rparr>;
          s3 = s2\<lparr>priv_bounds := (priv_bounds s2)
                 \<lparr>rect_width := rect_width (orig (priv_texture s2))\<rparr>\<rparr>;
          s4 = s3\<lparr>priv_bounds := (priv_bounds s3)
                 \<lparr>rect_height := rect_height (orig (priv_texture s3))\<rparr>\<rparr>
      in (priv_bounds s4, s4))"

subsection \<open>\<^verbatim>\<open>containsPoint\<close>\<close>

text \<open>
  \<^verbatim>\<open>worldTransform.applyInverse\<close> belongs to \<^verbatim>\<open>Matrix\<close>, which is not part of the
  sources at hand: it is the parameter \<open>applyInverse\<close>, whose result is what the call
  leaves in \<^verbatim>\<open>tempPoint\<close>.
\<close>

definition containsPoint :: "(Matrix \<Rightarrow> Point \<Rightarrow> Point) \<Rightarrow> Sprite \<Rightarrow> Point \<Rightarrow> bool" where
  "containsPoint applyInverse s point =
     (let tempPoint = applyInverse (worldTransform s) point;
          width = rect_width (orig (priv_texture s));
          height = rect_height (orig (priv_texture s));
          x1 = - width * pt_x (anchor s)
      in if pt_x tempPoint > x1 \<and> pt_x tempPoint < x1 + width
         then (let y1 = - height * pt_y (anchor s)
               in if pt_y tempPoint > y1 \<and> pt_y tempPoint < y1 + height
                  then True
                  else False)
         else False)"

section \<open>The formulas of the specification\<close>

text \<open>
  The affine map of the specification, \<open>x' = a\<cdot>wx + c\<cdot>hy + tx\<close> and
  \<open>y' = d\<cdot>hy + b\<cdot>wx + ty\<close>, and the eight numbers of the four corners
  \<open>(w1,h1), (w0,h1), (w0,h0), (w1,h0)\<close> mapped by it, in that order.
\<close>

definition affine :: "Matrix \<Rightarrow> real \<times> real \<Rightarrow> real \<times> real" where
  "affine m p =
     (mat_a m * fst p + mat_c m * snd p + mat_tx m,
      mat_d m * snd p + mat_b m * fst p + mat_ty m)"

definition quad :: "Matrix \<Rightarrow> real \<Rightarrow> real \<Rightarrow> real \<Rightarrow> real \<Rightarrow> real list" where
  "quad m w0 w1 h0 h1 =
     concat (map (\<lambda>p. [fst (affine m p), snd (affine m p)])
       [(w1, h1), (w0, h1), (w0, h0), (w1, h0)])"

text \<open>
  The rectangle of the specification's bounds aggregation: \<open>x = minX\<close>, \<open>y = minY\<close>,
  \<open>width = maxX - minX\<close>, \<open>height = maxY - minY\<close>, the minima and maxima ranging over the
  four corner points \<open>(q0,q1), (q2,q3), (q4,q5), (q6,q7)\<close> of the quad \<open>q\<close> and, if there
  is a child rectangle, widened by \<open>childX\<close>, \<open>childX + childWidth\<close>, \<open>childY\<close> and
  \<open>childY + childHeight\<close>.
\<close>

definition aggregate :: "real list \<Rightarrow> Rectangle option \<Rightarrow> Rectangle" where
  "aggregate q child =
     (let minX = Min {q ! 0, q ! 2, q ! 4, q ! 6};
          maxX = Max {q ! 0, q ! 2, q ! 4, q ! 6};
          minY = Min {q ! 1, q ! 3, q ! 5, q ! 7};
          maxY = Max {q ! 1, q ! 3, q ! 5, q ! 7}
      in case child of
           None \<Rightarrow>
             \<lparr>rect_x = minX, rect_y = minY, rect_width = maxX - minX, rect_height = maxY - minY\<rparr>
         | Some c \<Rightarrow>
             (let minX = min minX (rect_x c);
                  maxX = max maxX (rect_x c + rect_width c);
                  minY = min minY (rect_y c);
                  maxY = max maxY (rect_y c + rect_height c)
              in \<lparr>rect_x = minX, rect_y = minY,
                  rect_width = maxX - minX, rect_height = maxY - minY\<rparr>))"

text \<open>The identity transform.\<close>

definition identity :: Matrix where
  "identity = \<lparr>mat_a = 1, mat_b = 0, mat_c = 0, mat_d = 1, mat_tx = 0, mat_ty = 0\<rparr>"

text \<open>
  Modelled from the spec: \<^verbatim>\<open>Matrix.applyInverse\<close> (the \<^verbatim>\<open>math\<close> module is not part of
  the sources at hand). The spec has it "apply the inverse of the world transform": the
  point that the affine map takes to \<open>pos\<close>. Only the evaluations of \<open>containsPoint\<close>
  at given points use it.
\<close>

definition applyInverse :: "Matrix \<Rightarrow> Point \<Rightarrow> Point" where
  "applyInverse m pos =
     (let det = mat_a m * mat_d m - mat_c m * mat_b m
      in \<lparr>pt_x = (mat_d m * (pt_x pos - mat_tx m) - mat_c m * (pt_y pos - mat_ty m)) / det,
          pt_y = (mat_a m * (pt_y pos - mat_ty m) - mat_b m * (pt_x pos - mat_tx m)) / det\<rparr>)"

section \<open>Sprites to evaluate on\<close>

text \<open>
  A sprite as the constructor leaves it (anchor aside): \<^verbatim>\<open>_width\<close> and \<^verbatim>\<open>_height\<close> zero,
  \<^verbatim>\<open>textureDirty\<close> set, a zeroed \<^verbatim>\<open>Float32Array(16)\<close>; the members inherited from
  \<^verbatim>\<open>Container\<close> are a scale of \<open>(1, 1)\<close>, no children and no memoized bounds. The
  world transform, the texture and the anchor are given.
\<close>

definition fixture :: "Matrix \<Rightarrow> Texture \<Rightarrow> Point \<Rightarrow> Sprite" where
  "fixture wt tex anch =
     \<lparr>anchor = anch, scale = \<lparr>pt_x = 1, pt_y = 1\<rparr>, priv_texture = tex,
      priv_width = 0, priv_height = 0, worldTransform = wt,
      vertexData = replicate 16 0, textureDirty = True, vertexDirty = False,
      children_length = 0,
      priv_bounds = \<lparr>rect_x = 0, rect_y = 0, rect_width = 1, rect_height = 1\<rparr>,
      priv_currentBounds = Null\<rparr>"

text \<open>A logical frame \<^verbatim>\<open>orig\<close> of the given width and height.\<close>

definition frame :: "real \<Rightarrow> real \<Rightarrow> Rectangle" where
  "frame w h = \<lparr>rect_x = 0, rect_y = 0, rect_width = w, rect_height = h\<rparr>"

text \<open>The transform that moves by \<open>(x, y)\<close>.\<close>

definition translation :: "real \<Rightarrow> real \<Rightarrow> Matrix" where
  "translation x y = \<lparr>mat_a = 1, mat_b = 0, mat_c = 0, mat_d = 1, mat_tx = x, mat_ty = y\<rparr>"

section \<open>Properties\<close>

subsection \<open>Slots of the geometry buffer\<close>

lemma take_8_nth:
  "8 \<le> length xs \<Longrightarrow> take 8 xs = [xs ! 0, xs ! 1, xs ! 2, xs ! 3, xs ! 4, xs ! 5, xs ! 6, xs ! 7]"
  by (rule nth_equalityI) (auto simp: less_Suc_eq numeral_eq_Suc)

lemma length_calculateVertices [simp]:
  "length (vertexData (calculateVertices s)) = length (vertexData s)"
  by (simp add: calculateVertices_def Let_def split: option.split prod.split)

lemma length_calculateBoundsVertices [simp]:
  "length (vertexData (calculateBoundsVertices s)) = length (vertexData s)"
  by (simp add: calculateBoundsVertices_def Let_def split: option.split)

lemma drop_8_nth:
  "length xs = 16 \<Longrightarrow>
   drop 8 xs = [xs ! 8, xs ! 9, xs ! 10, xs ! 11, xs ! 12, xs ! 13, xs ! 14, xs ! 15]"
  by (rule nth_equalityI) (auto simp: less_Suc_eq numeral_eq_Suc)

lemma nth_list_update_in:
  "j < length xs \<Longrightarrow> xs[i := x] ! j = (if i = j then x else xs ! j)"
  by (simp add: nth_list_update)

text \<open>Both calculators change nothing of the sprite but \<open>vertexData\<close>.\<close>

lemma calculateVertices_frame:
  "calculateVertices s = s\<lparr>vertexData := vertexData (calculateVertices s)\<rparr>"
  by (cases "trim (priv_texture s)") (simp_all add: calculateVertices_def Let_def)

lemma calculateBoundsVertices_frame:
  "calculateBoundsVertices s = s\<lparr>vertexData := vertexData (calculateBoundsVertices s)\<rparr>"
  by (simp add: calculateBoundsVertices_def Let_def)

lemma drop_8_calculateVertices:
  "drop 8 (vertexData (calculateVertices s)) = drop 8 (vertexData s)"
  by (cases "trim (priv_texture s)") (simp_all add: calculateVertices_def Let_def)

lemma take_8_calculateBoundsVertices:
  "take 8 (vertexData (calculateBoundsVertices s)) = take 8 (vertexData s)"
  by (simp add: calculateBoundsVertices_def Let_def)

lemma calculateVertices_fields [simp]:
  "priv_texture (calculateVertices s) = priv_texture s"
  "worldTransform (calculateVertices s) = worldTransform s"
  "anchor (calculateVertices s) = anchor s"
  "children_length (calculateVertices s) = children_length s"
  "priv_currentBounds (calculateVertices s) = priv_currentBounds s"
  by (cases "trim (priv_texture s)"; simp add: calculateVertices_def Let_def)+

subsection \<open>The render quad\<close>

lemma quad_eq:
  "quad m w0 w1 h0 h1 =
    [mat_a m * w1 + mat_c m * h1 + mat_tx m, mat_d m * h1 + mat_b m * w1 + mat_ty m,
     mat_a m * w0 + mat_c m * h1 + mat_tx m, mat_d m * h1 + mat_b m * w0 + mat_ty m,
     mat_a m * w0 + mat_c m * h0 + mat_tx m, mat_d m * h0 + mat_b m * w0 + mat_ty m,
     mat_a m * w1 + mat_c m * h0 + mat_tx m, mat_d m * h0 + mat_b m * w1 + mat_ty m]"
  by (simp add: quad_def affine_def)

lemma take_8_calculateVertices_None:
  assumes "trim (priv_texture s) = None" and "length (vertexData s) = 16"
  shows "take 8 (vertexData (calculateVertices s)) =
    quad (worldTransform s)
      (rect_width (orig (priv_texture s)) * (1 - pt_x (anchor s)))
      (rect_width (orig (priv_texture s)) * - pt_x (anchor s))
      (rect_height (orig (priv_texture s)) * (1 - pt_y (anchor s)))
      (rect_height (orig (priv_texture s)) * - pt_y (anchor s))"
  using assms
  by (simp add: take_8_nth quad_eq) (simp add: calculateVertices_def Let_def nth_list_update_in)

lemma take_8_calculateVertices_Some:
  assumes "trim (priv_texture s) = Some tr" and "length (vertexData s) = 16"
  shows "take 8 (vertexData (calculateVertices s)) =
    quad (worldTransform s)
      (rect_x tr - pt_x (anchor s) * rect_width (orig (priv_texture s)) + rect_width tr)
      (rect_x tr - pt_x (anchor s) * rect_width (orig (priv_texture s)))
      (rect_y tr - pt_y (anchor s) * rect_height (orig (priv_texture s)) + rect_height tr)
      (rect_y tr - pt_y (anchor s) * rect_height (orig (priv_texture s)))"
  using assms
  by (simp add: take_8_nth quad_eq) (simp add: calculateVertices_def Let_def nth_list_update_in)

text \<open>
  C1. Without a trim rectangle, \<^verbatim>\<open>calculateVertices\<close> takes the extents
  \<open>w0 = W\<cdot>(1 - ax)\<close>, \<open>w1 = -W\<cdot>ax\<close>, \<open>h0 = H\<cdot>(1 - ay)\<close>, \<open>h1 = -H\<cdot>ay\<close> and leaves in
  slots 0 to 7 the corners \<open>(w1,h1), (w0,h1), (w0,h0), (w1,h0)\<close>, in this order, each
  mapped by \<open>x' = a\<cdot>wx + c\<cdot>hy + tx\<close>, \<open>y' = d\<cdot>hy + b\<cdot>wx + ty\<close>. With the identity
  transform, anchor \<open>(0.5, 0.5)\<close> and a frame of 10 by 10 the corners are
  \<open>(-5,-5), (5,-5), (5,5), (-5,5)\<close>.
\<close>

theorem calculateVertices_no_trim:
  assumes "trim (priv_texture s) = None" and "length (vertexData s) = 16"
  shows "take 8 (vertexData (calculateVertices s)) =
      quad (worldTransform s)
        (rect_width (orig (priv_texture s)) * (1 - pt_x (anchor s)))
        (- rect_width (orig (priv_texture s)) * pt_x (anchor s))
        (rect_height (orig (priv_texture s)) * (1 - pt_y (anchor s)))
        (- rect_height (orig (priv_texture s)) * pt_y (anchor s))
    \<and> take 8 (vertexData (calculateVertices
        (s\<lparr>worldTransform := identity,
           anchor := \<lparr>pt_x = 0.5, pt_y = 0.5\<rparr>,
           priv_texture := \<lparr>orig = \<lparr>rect_x = ox, rect_y = oy, rect_width = 10, rect_height = 10\<rparr>,
                            trim = None\<rparr>\<rparr>)))
      = [- 5, - 5, 5, - 5, 5, 5, - 5, 5]"
proof
  show "take 8 (vertexData (calculateVertices s)) =
      quad (worldTransform s)
        (rect_width (orig (priv_texture s)) * (1 - pt_x (anchor s)))
        (- rect_width (orig (priv_texture s)) * pt_x (anchor s))
        (rect_height (orig (priv_texture s)) * (1 - pt_y (anchor s)))
        (- rect_height (orig (priv_texture s)) * pt_y (anchor s))"
    using assms by (simp add: take_8_calculateVertices_None)
next
  let ?e = "s\<lparr>worldTransform := identity,
           anchor := \<lparr>pt_x = 0.5, pt_y = 0.5\<rparr>,
           priv_texture := \<lparr>orig = \<lparr>rect_x = ox, rect_y = oy, rect_width = 10, rect_height = 10\<rparr>,
                            trim = None\<rparr>\<rparr>"
  have "trim (priv_texture ?e) = None" and "length (vertexData ?e) = 16"
    using assms by simp_all
  then have "take 8 (vertexData (calculateVertices ?e)) =
    quad (worldTransform ?e)
      (rect_width (orig (priv_texture ?e)) * (1 - pt_x (anchor ?e)))
      (rect_width (orig (priv_texture ?e)) * - pt_x (anchor ?e))
      (rect_height (orig (priv_texture ?e)) * (1 - pt_y (anchor ?e)))
      (rect_height (orig (priv_texture ?e)) * - pt_y (anchor ?e))"
    by (rule take_8_calculateVertices_None)
  then show "take 8 (vertexData (calculateVertices ?e)) = [- 5, - 5, 5, - 5, 5, 5, - 5, 5]"
    by (simp add: quad_eq identity_def)
qed


theorem calculateVertices_no_trim_witness:
  "trim (priv_texture (fixture \<lparr>mat_a = 2, mat_b = 0, mat_c = 0, mat_d = 3, mat_tx = 1, mat_ty = 1\<rparr>
       \<lparr>orig = frame 10 20, trim = None\<rparr> \<lparr>pt_x = 0, pt_y = 1\<rparr>)) = None
   \<and> length (vertexData (fixture \<lparr>mat_a = 2, mat_b = 0, mat_c = 0, mat_d = 3, mat_tx = 1, mat_ty = 1\<rparr>
       \<lparr>orig = frame 10 20, trim = None\<rparr> \<lparr>pt_x = 0, pt_y = 1\<rparr>)) = 16
   \<and> take 8 (vertexData (calculateVertices
        (fixture \<lparr>mat_a = 2, mat_b = 0, mat_c = 0, mat_d = 3, mat_tx = 1, mat_ty = 1\<rparr>
           \<lparr>orig = frame 10 20, trim = None\<rparr> \<lparr>pt_x = 0, pt_y = 1\<rparr>)))
      = [1, - 59, 21, - 59, 21, 1, 1, 1]
   \<and> take 8 (vertexData (calculateVertices
        (fixture identity \<lparr>orig = frame 10 10, trim = None\<rparr> \<lparr>pt_x = 0.5, pt_y = 0.5\<rparr>)))
      = [- 5, - 5, 5, - 5, 5, 5, - 5, 5]"
  using calculateVertices_no_trim
    [of "fixture \<lparr>mat_a = 2, mat_b = 0, mat_c = 0, mat_d = 3, mat_tx = 1, mat_ty = 1\<rparr>
           \<lparr>orig = frame 10 20, trim = None\<rparr> \<lparr>pt_x = 0, pt_y = 1\<rparr>" 0 0]
    calculateVertices_no_trim
    [of "fixture identity \<lparr>orig = frame 10 10, trim = None\<rparr> \<lparr>pt_x = 0.5, pt_y = 0.5\<rparr>" ]
  by (simp add: fixture_def frame_def quad_eq identity_def)

text \<open>
  C2. With a trim rectangle \<open>(tx0, ty0, tw, th)\<close>, \<^verbatim>\<open>calculateVertices\<close> takes the extents
  \<open>w1 = tx0 - ax\<cdot>W\<close>, \<open>w0 = w1 + tw\<close>, \<open>h1 = ty0 - ay\<cdot>H\<close>, \<open>h0 = h1 + th\<close> and leaves
  the same four corners, in the same order and mapped in the same way, in slots 0 to 7.
  With a frame of 10 by 10, the trim \<open>{x: 2, y: 3, width: 4, height: 5}\<close>, anchor
  \<open>(0, 0)\<close> and the identity transform the corners are \<open>(2,3), (6,3), (6,8), (2,8)\<close>.
\<close>

theorem calculateVertices_trim:
  assumes "trim (priv_texture s) = Some tr" and "length (vertexData s) = 16"
  shows "take 8 (vertexData (calculateVertices s)) =
      quad (worldTransform s)
        (rect_x tr - pt_x (anchor s) * rect_width (orig (priv_texture s)) + rect_width tr)
        (rect_x tr - pt_x (anchor s) * rect_width (orig (priv_texture s)))
        (rect_y tr - pt_y (anchor s) * rect_height (orig (priv_texture s)) + rect_height tr)
        (rect_y tr - pt_y (anchor s) * rect_height (orig (priv_texture s)))
    \<and> take 8 (vertexData (calculateVertices
        (s\<lparr>worldTransform := identity,
           anchor := \<lparr>pt_x = 0, pt_y = 0\<rparr>,
           priv_texture := \<lparr>orig = \<lparr>rect_x = ox, rect_y = oy, rect_width = 10, rect_height = 10\<rparr>,
                            trim = Some \<lparr>rect_x = 2, rect_y = 3, rect_width = 4, rect_height = 5\<rparr>\<rparr>\<rparr>)))
      = [2, 3, 6, 3, 6, 8, 2, 8]"
proof
  show "take 8 (vertexData (calculateVertices s)) =
      quad (worldTransform s)
        (rect_x tr - pt_x (anchor s) * rect_width (orig (priv_texture s)) + rect_width tr)
        (rect_x tr - pt_x (anchor s) * rect_width (orig (priv_texture s)))
        (rect_y tr - pt_y (anchor s) * rect_height (orig (priv_texture s)) + rect_height tr)
        (rect_y tr - pt_y (anchor s) * rect_height (orig (priv_texture s)))"
    using assms by (rule take_8_calculateVertices_Some)
next
  let ?t = "\<lparr>rect_x = 2, rect_y = 3, rect_width = 4, rect_height = 5\<rparr>"
  let ?e = "s\<lparr>worldTransform := identity,
           anchor := \<lparr>pt_x = 0, pt_y = 0\<rparr>,
           priv_texture := \<lparr>orig = \<lparr>rect_x = ox, rect_y = oy, rect_width = 10, rect_height = 10\<rparr>,
                            trim = Some ?t\<rparr>\<rparr>"
  have "trim (priv_texture ?e) = Some ?t" and "length (vertexData ?e) = 16"
    using assms by simp_all
  then have "take 8 (vertexData (calculateVertices ?e)) =
    quad (worldTransform ?e)
      (rect_x ?t - pt_x (anchor ?e) * rect_width (orig (priv_texture ?e)) + rect_width ?t)
      (rect_x ?t - pt_x (anchor ?e) * rect_width (orig (priv_texture ?e)))
      (rect_y ?t - pt_y (anchor ?e) * rect_height (orig (priv_texture ?e)) + rect_height ?t)
      (rect_y ?t - pt_y (anchor ?e) * rect_height (orig (priv_texture ?e)))"
    by (rule take_8_calculateVertices_Some)
  then show "take 8 (vertexData (calculateVertices ?e)) = [2, 3, 6, 3, 6, 8, 2, 8]"
    by (simp add: quad_eq identity_def)
qed

theorem calculateVertices_trim_witness:
  "trim (priv_texture (fixture \<lparr>mat_a = 0, mat_b = 1, mat_c = - 1, mat_d = 0, mat_tx = 100, mat_ty = 0\<rparr>
       \<lparr>orig = frame 10 10, trim = Some \<lparr>rect_x = 2, rect_y = 3, rect_width = 4, rect_height = 5\<rparr>\<rparr>
       \<lparr>pt_x = 0.5, pt_y = 0.5\<rparr>))
     = Some \<lparr>rect_x = 2, rect_y = 3, rect_width = 4, rect_height = 5\<rparr>
   \<and> length (vertexData (fixture \<lparr>mat_a = 0, mat_b = 1, mat_c = - 1, mat_d = 0, mat_tx = 100, mat_ty = 0\<rparr>
       \<lparr>orig = frame 10 10, trim = Some \<lparr>rect_x = 2, rect_y = 3, rect_width = 4, rect_height = 5\<rparr>\<rparr>
       \<lparr>pt_x = 0.5, pt_y = 0.5\<rparr>)) = 16
   \<and> take 8 (vertexData (calculateVertices
        (fixture \<lparr>mat_a = 0, mat_b = 1, mat_c = - 1, mat_d = 0, mat_tx = 100, mat_ty = 0\<rparr>
           \<lparr>orig = frame 10 10, trim = Some \<lparr>rect_x = 2, rect_y = 3, rect_width = 4, rect_height = 5\<rparr>\<rparr>
           \<lparr>pt_x = 0.5, pt_y = 0.5\<rparr>)))
      = [102, - 3, 102, 1, 97, 1, 97, - 3]"
  using calculateVertices_trim
    [of "fixture \<lparr>mat_a = 0, mat_b = 1, mat_c = - 1, mat_d = 0, mat_tx = 100, mat_ty = 0\<rparr>
           \<lparr>orig = frame 10 10, trim = Some \<lparr>rect_x = 2, rect_y = 3, rect_width = 4, rect_height = 5\<rparr>\<rparr>
           \<lparr>pt_x = 0.5, pt_y = 0.5\<rparr>"
        "\<lparr>rect_x = 2, rect_y = 3, rect_width = 4, rect_height = 5\<rparr>" 0 0]
  by (simp add: fixture_def frame_def quad_eq)


subsection \<open>Idempotence of \<^verbatim>\<open>calculateVertices\<close>\<close>

lemma vertexData_calculateVertices_twice:
  "vertexData (calculateVertices (calculateVertices s)) = vertexData (calculateVertices s)"
proof (rule nth_equalityI)
  show "length (vertexData (calculateVertices (calculateVertices s)))
      = length (vertexData (calculateVertices s))"
    by simp
next
  fix i
  assume "i < length (vertexData (calculateVertices (calculateVertices s)))"
  then have i: "i < length (vertexData s)"
    by simp
  then show "vertexData (calculateVertices (calculateVertices s)) ! i
      = vertexData (calculateVertices s) ! i"
    by (cases "trim (priv_texture s)")
       (simp_all add: calculateVertices_def Let_def nth_list_update_in)
qed

text \<open>
  C9. Running \<^verbatim>\<open>calculateVertices\<close> a second time, with nothing changed in between,
  leaves the sprite, and so all sixteen slots of its geometry buffer, as the first run
  left them: the second run stores the same eight values in slots 0 to 7, and the slots
  8 to 15 still hold what they held before the first run.
\<close>

theorem calculateVertices_idempotent:
  "calculateVertices (calculateVertices s) = calculateVertices s
   \<and> vertexData (calculateVertices (calculateVertices s)) = vertexData (calculateVertices s)
   \<and> drop 8 (vertexData (calculateVertices (calculateVertices s))) = drop 8 (vertexData s)"
proof -
  have "calculateVertices (calculateVertices s)
      = (calculateVertices s)\<lparr>vertexData := vertexData (calculateVertices (calculateVertices s))\<rparr>"
    by (rule calculateVertices_frame)
  also have "\<dots> = calculateVertices s"
    by (simp add: vertexData_calculateVertices_twice)
  finally have whole: "calculateVertices (calculateVertices s) = calculateVertices s" .
  then show ?thesis
    by (simp add: drop_8_calculateVertices)
qed

subsection \<open>The bounds quad\<close>

lemma drop_8_calculateBoundsVertices_copy:
  assumes "length (vertexData s) = 16"
    and "trim (priv_texture s) = None
      \<or> (\<exists>tr. trim (priv_texture s) = Some tr
            \<and> rect_width tr = rect_width (orig (priv_texture s))
            \<and> rect_height tr = rect_height (orig (priv_texture s)))"
  shows "drop 8 (vertexData (calculateBoundsVertices s)) = take 8 (vertexData s)"
proof -
  have copy: "(case trim (priv_texture s) of
           None \<Rightarrow> True
         | Some tr \<Rightarrow> rect_width tr = rect_width (orig (priv_texture s))
             \<and> rect_height tr = rect_height (orig (priv_texture s)))"
    using assms(2) by auto
  have len: "length (vertexData (calculateBoundsVertices s)) = 16"
    using assms(1) by simp
  show ?thesis
    unfolding drop_8_nth [OF len]
    using assms(1) copy
    by (simp add: take_8_nth) (simp add: calculateBoundsVertices_def Let_def nth_list_update_in)
qed

lemma drop_8_calculateBoundsVertices_recompute:
  assumes "length (vertexData s) = 16"
    and "\<not> (trim (priv_texture s) = None
      \<or> (\<exists>tr. trim (priv_texture s) = Some tr
            \<and> rect_width tr = rect_width (orig (priv_texture s))
            \<and> rect_height tr = rect_height (orig (priv_texture s))))"
  shows "drop 8 (vertexData (calculateBoundsVertices s)) =
    quad (worldTransform s)
      (rect_width (orig (priv_texture s)) * (1 - pt_x (anchor s)))
      (- rect_width (orig (priv_texture s)) * pt_x (anchor s))
      (rect_height (orig (priv_texture s)) * (1 - pt_y (anchor s)))
      (- rect_height (orig (priv_texture s)) * pt_y (anchor s))"
proof -
  have recompute: "\<not> (case trim (priv_texture s) of
           None \<Rightarrow> True
         | Some tr \<Rightarrow> rect_width tr = rect_width (orig (priv_texture s))
             \<and> rect_height tr = rect_height (orig (priv_texture s)))"
    using assms(2) by (auto split: option.splits)
  have len: "length (vertexData (calculateBoundsVertices s)) = 16"
    using assms(1) by simp
  show ?thesis
    unfolding drop_8_nth [OF len]
    using assms(1) recompute
    by (simp add: quad_eq) (simp add: calculateBoundsVertices_def Let_def nth_list_update_in)
qed

text \<open>
  C3. If the texture has no trim, or the trim's width and height both equal those of
  the logical frame, \<^verbatim>\<open>calculateBoundsVertices\<close> copies slots 0 to 7 into slots 8 to 15,
  so that afterwards the bounds quad equals the render quad. Otherwise it stores in
  slots 8 to 15 the corners of the untrimmed extents under the current transform,
  whatever the buffer held before.
\<close>

theorem calculateBoundsVertices_copy_or_recompute:
  assumes "length (vertexData s) = 16"
  shows "if trim (priv_texture s) = None
          \<or> (\<exists>tr. trim (priv_texture s) = Some tr
                \<and> rect_width tr = rect_width (orig (priv_texture s))
                \<and> rect_height tr = rect_height (orig (priv_texture s)))
       then drop 8 (vertexData (calculateBoundsVertices s)) = take 8 (vertexData s)
          \<and> drop 8 (vertexData (calculateBoundsVertices s))
              = take 8 (vertexData (calculateBoundsVertices s))
       else drop 8 (vertexData (calculateBoundsVertices s)) =
            quad (worldTransform s)
              (rect_width (orig (priv_texture s)) * (1 - pt_x (anchor s)))
              (- rect_width (orig (priv_texture s)) * pt_x (anchor s))
              (rect_height (orig (priv_texture s)) * (1 - pt_y (anchor s)))
              (- rect_height (orig (priv_texture s)) * pt_y (anchor s))
          \<and> (\<forall>vd. length vd = 16 \<longrightarrow>
                drop 8 (vertexData (calculateBoundsVertices (s\<lparr>vertexData := vd\<rparr>)))
                  = drop 8 (vertexData (calculateBoundsVertices s)))"
proof (cases "trim (priv_texture s) = None
          \<or> (\<exists>tr. trim (priv_texture s) = Some tr
                \<and> rect_width tr = rect_width (orig (priv_texture s))
                \<and> rect_height tr = rect_height (orig (priv_texture s)))")
  case True
  with assms show ?thesis
    by (simp only: if_True drop_8_calculateBoundsVertices_copy take_8_calculateBoundsVertices)
next
  case False
  have quad8: "drop 8 (vertexData (calculateBoundsVertices s)) =
            quad (worldTransform s)
              (rect_width (orig (priv_texture s)) * (1 - pt_x (anchor s)))
              (- rect_width (orig (priv_texture s)) * pt_x (anchor s))
              (rect_height (orig (priv_texture s)) * (1 - pt_y (anchor s)))
              (- rect_height (orig (priv_texture s)) * pt_y (anchor s))"
    using assms False by (rule drop_8_calculateBoundsVertices_recompute)
  have indep: "drop 8 (vertexData (calculateBoundsVertices (s\<lparr>vertexData := vd\<rparr>)))
      = drop 8 (vertexData (calculateBoundsVertices s))" if "length vd = 16" for vd
    using drop_8_calculateBoundsVertices_recompute [of "s\<lparr>vertexData := vd\<rparr>"] quad8 that False
    by simp
  from False quad8 indep show ?thesis
    by (simp only: if_False) blast
qed

theorem calculateBoundsVertices_copy_or_recompute_witness:
  "length (vertexData (calculateVertices (fixture identity
      \<lparr>orig = frame 10 10,
       trim = Some \<lparr>rect_x = 2, rect_y = 3, rect_width = 10, rect_height = 10\<rparr>\<rparr>
      \<lparr>pt_x = 0, pt_y = 0\<rparr>))) = 16
   \<and> drop 8 (vertexData (calculateBoundsVertices (calculateVertices (fixture identity
      \<lparr>orig = frame 10 10,
       trim = Some \<lparr>rect_x = 2, rect_y = 3, rect_width = 10, rect_height = 10\<rparr>\<rparr>
      \<lparr>pt_x = 0, pt_y = 0\<rparr>)))) = [2, 3, 12, 3, 12, 13, 2, 13]
   \<and> length (vertexData (calculateVertices (fixture identity
      \<lparr>orig = frame 10 10,
       trim = Some \<lparr>rect_x = 2, rect_y = 3, rect_width = 4, rect_height = 5\<rparr>\<rparr>
      \<lparr>pt_x = 0, pt_y = 0\<rparr>))) = 16
   \<and> drop 8 (vertexData (calculateBoundsVertices (calculateVertices (fixture identity
      \<lparr>orig = frame 10 10,
       trim = Some \<lparr>rect_x = 2, rect_y = 3, rect_width = 4, rect_height = 5\<rparr>\<rparr>
      \<lparr>pt_x = 0, pt_y = 0\<rparr>)))) = [0, 0, 10, 0, 10, 10, 0, 10]
   \<and> length (replicate 16 (7::real)) = 16
   \<and> drop 8 (vertexData (calculateBoundsVertices ((calculateVertices (fixture identity
      \<lparr>orig = frame 10 10,
       trim = Some \<lparr>rect_x = 2, rect_y = 3, rect_width = 4, rect_height = 5\<rparr>\<rparr>
      \<lparr>pt_x = 0, pt_y = 0\<rparr>))\<lparr>vertexData := replicate 16 7\<rparr>)))
     = [0, 0, 10, 0, 10, 10, 0, 10]"
proof -
  let ?A = "calculateVertices (fixture identity
      \<lparr>orig = frame 10 10,
       trim = Some \<lparr>rect_x = 2, rect_y = 3, rect_width = 10, rect_height = 10\<rparr>\<rparr>
      \<lparr>pt_x = 0, pt_y = 0\<rparr>)"
  let ?B = "calculateVertices (fixture identity
      \<lparr>orig = frame 10 10,
       trim = Some \<lparr>rect_x = 2, rect_y = 3, rect_width = 4, rect_height = 5\<rparr>\<rparr>
      \<lparr>pt_x = 0, pt_y = 0\<rparr>)"
  have lenA: "length (vertexData ?A) = 16" and lenB: "length (vertexData ?B) = 16"
    by (simp_all add: fixture_def)
  have renderA: "take 8 (vertexData ?A) = [2, 3, 12, 3, 12, 13, 2, 13]"
    by (subst take_8_calculateVertices_Some
          [where tr = "\<lparr>rect_x = 2, rect_y = 3, rect_width = 10, rect_height = 10\<rparr>"])
       (simp_all add: fixture_def frame_def quad_eq identity_def)
  have "drop 8 (vertexData (calculateBoundsVertices ?A)) = [2, 3, 12, 3, 12, 13, 2, 13]"
    using calculateBoundsVertices_copy_or_recompute [OF lenA] renderA
    by (simp add: fixture_def frame_def)
  moreover
  have recompute: "drop 8 (vertexData (calculateBoundsVertices ?B)) = [0, 0, 10, 0, 10, 10, 0, 10]
      \<and> (\<forall>vd. length vd = 16 \<longrightarrow>
            drop 8 (vertexData (calculateBoundsVertices (?B\<lparr>vertexData := vd\<rparr>)))
              = drop 8 (vertexData (calculateBoundsVertices ?B)))"
    using calculateBoundsVertices_copy_or_recompute [OF lenB]
    by (simp add: fixture_def frame_def quad_eq identity_def)
  moreover
  have "drop 8 (vertexData (calculateBoundsVertices (?B\<lparr>vertexData := replicate 16 7\<rparr>)))
      = [0, 0, 10, 0, 10, 10, 0, 10]"
    using recompute by (metis length_replicate)
  ultimately show ?thesis
    using lenA lenB by simp
qed

subsection \<open>The two calculators share the buffer\<close>

text \<open>
  C10. \<^verbatim>\<open>calculateVertices\<close> leaves slots 8 to 15 and every other member of the sprite
  as they were, and \<^verbatim>\<open>calculateBoundsVertices\<close> leaves slots 0 to 7 and every other
  member as they were; neither changes the size of the buffer. Outside its copy branch
  \<^verbatim>\<open>calculateBoundsVertices\<close> does not depend on the buffer's contents.
\<close>

theorem calculators_partition_vertexData:
  "drop 8 (vertexData (calculateVertices s)) = drop 8 (vertexData s)
   \<and> length (vertexData (calculateVertices s)) = length (vertexData s)
   \<and> calculateVertices s = s\<lparr>vertexData := vertexData (calculateVertices s)\<rparr>
   \<and> take 8 (vertexData (calculateBoundsVertices s)) = take 8 (vertexData s)
   \<and> length (vertexData (calculateBoundsVertices s)) = length (vertexData s)
   \<and> calculateBoundsVertices s = s\<lparr>vertexData := vertexData (calculateBoundsVertices s)\<rparr>
   \<and> (length (vertexData s) = 16 \<and> length vd = 16
        \<and> \<not> (trim (priv_texture s) = None
              \<or> (\<exists>tr. trim (priv_texture s) = Some tr
                    \<and> rect_width tr = rect_width (orig (priv_texture s))
                    \<and> rect_height tr = rect_height (orig (priv_texture s))))
      \<longrightarrow> drop 8 (vertexData (calculateBoundsVertices (s\<lparr>vertexData := vd\<rparr>)))
            = drop 8 (vertexData (calculateBoundsVertices s)))"
proof -
  have "drop 8 (vertexData (calculateBoundsVertices (s\<lparr>vertexData := vd\<rparr>)))
      = drop 8 (vertexData (calculateBoundsVertices s))"
    if "length (vertexData s) = 16" and "length vd = 16"
      and "\<not> (trim (priv_texture s) = None
              \<or> (\<exists>tr. trim (priv_texture s) = Some tr
                    \<and> rect_width tr = rect_width (orig (priv_texture s))
                    \<and> rect_height tr = rect_height (orig (priv_texture s))))"
    using drop_8_calculateBoundsVertices_recompute [of "s\<lparr>vertexData := vd\<rparr>"]
      drop_8_calculateBoundsVertices_recompute [of s] that
    by simp
  moreover note drop_8_calculateVertices [of s] take_8_calculateBoundsVertices [of s]
    calculateVertices_frame [of s] calculateBoundsVertices_frame [of s]
    length_calculateVertices [of s] length_calculateBoundsVertices [of s]
  ultimately show ?thesis
    by blast
qed

theorem calculators_partition_vertexData_witness:
  "drop 8 (vertexData (calculateVertices (fixture identity
      \<lparr>orig = frame 10 10,
       trim = Some \<lparr>rect_x = 2, rect_y = 3, rect_width = 4, rect_height = 5\<rparr>\<rparr>
      \<lparr>pt_x = 0, pt_y = 0\<rparr>))) = replicate 8 0
   \<and> length (vertexData (fixture identity
      \<lparr>orig = frame 10 10,
       trim = Some \<lparr>rect_x = 2, rect_y = 3, rect_width = 4, rect_height = 5\<rparr>\<rparr>
      \<lparr>pt_x = 0, pt_y = 0\<rparr>)) = 16
   \<and> length (replicate 16 (7::real)) = 16
   \<and> trim (priv_texture (fixture identity
      \<lparr>orig = frame 10 10,
       trim = Some \<lparr>rect_x = 2, rect_y = 3, rect_width = 4, rect_height = 5\<rparr>\<rparr>
      \<lparr>pt_x = 0, pt_y = 0\<rparr>))
     = Some \<lparr>rect_x = 2, rect_y = 3, rect_width = 4, rect_height = 5\<rparr>
   \<and> rect_width (orig (priv_texture (fixture identity
      \<lparr>orig = frame 10 10,
       trim = Some \<lparr>rect_x = 2, rect_y = 3, rect_width = 4, rect_height = 5\<rparr>\<rparr>
      \<lparr>pt_x = 0, pt_y = 0\<rparr>))) = 10
   \<and> drop 8 (vertexData (calculateBoundsVertices ((fixture identity
      \<lparr>orig = frame 10 10,
       trim = Some \<lparr>rect_x = 2, rect_y = 3, rect_width = 4, rect_height = 5\<rparr>\<rparr>
      \<lparr>pt_x = 0, pt_y = 0\<rparr>)\<lparr>vertexData := replicate 16 7\<rparr>)))
     = drop 8 (vertexData (calculateBoundsVertices (fixture identity
      \<lparr>orig = frame 10 10,
       trim = Some \<lparr>rect_x = 2, rect_y = 3, rect_width = 4, rect_height = 5\<rparr>\<rparr>
      \<lparr>pt_x = 0, pt_y = 0\<rparr>)))"
  using calculators_partition_vertexData
    [of "fixture identity
      \<lparr>orig = frame 10 10,
       trim = Some \<lparr>rect_x = 2, rect_y = 3, rect_width = 4, rect_height = 5\<rparr>\<rparr>
      \<lparr>pt_x = 0, pt_y = 0\<rparr>" "replicate 16 7"]
  by (simp add: fixture_def frame_def)

subsection \<open>Hit test\<close>

text \<open>\<open>applyInverse\<close> undoes the affine map of an invertible transform.\<close>

lemma affine_applyInverse:
  assumes "mat_a m * mat_d m - mat_c m * mat_b m \<noteq> 0"
  shows "affine m (pt_x (applyInverse m pos), pt_y (applyInverse m pos)) = (pt_x pos, pt_y pos)"
proof -
  define det where "det = mat_a m * mat_d m - mat_c m * mat_b m"
  define nx where "nx = mat_d m * (pt_x pos - mat_tx m) - mat_c m * (pt_y pos - mat_ty m)"
  define ny where "ny = mat_a m * (pt_y pos - mat_ty m) - mat_b m * (pt_x pos - mat_tx m)"
  have det: "det \<noteq> 0"
    using assms by (simp add: det_def)
  have local: "pt_x (applyInverse m pos) = nx / det" "pt_y (applyInverse m pos) = ny / det"
    by (simp_all add: applyInverse_def Let_def det_def nx_def ny_def)
  have "mat_a m * nx + mat_c m * ny = det * (pt_x pos - mat_tx m)"
    by (simp add: nx_def ny_def det_def algebra_simps)
  then have "mat_a m * (nx / det) + mat_c m * (ny / det) = pt_x pos - mat_tx m"
    using det by (simp add: add_divide_distrib [symmetric])
  moreover
  have "mat_d m * ny + mat_b m * nx = det * (pt_y pos - mat_ty m)"
    by (simp add: nx_def ny_def det_def algebra_simps)
  then have "mat_d m * (ny / det) + mat_b m * (nx / det) = pt_y pos - mat_ty m"
    using det by (simp add: add_divide_distrib [symmetric])
  ultimately show ?thesis
    by (simp add: affine_def local)
qed

lemma applyInverse_identity [simp]: "applyInverse identity pos = pos"
  by (simp add: applyInverse_def identity_def)

text \<open>
  C5. \<^verbatim>\<open>containsPoint\<close> holds exactly if the local point \<open>(lx, ly)\<close>, the world point
  taken back through the transform, satisfies the strict inequalities
  \<open>-W\<cdot>ax < lx < -W\<cdot>ax + W\<close> and \<open>-H\<cdot>ay < ly < -H\<cdot>ay + H\<close>; a point on the boundary
  is not contained. With a frame of 10 by 10, anchor \<open>(0, 0)\<close> and the identity
  transform, \<open>(0, 0)\<close> and \<open>(10, 10)\<close> are outside and \<open>(5, 5)\<close> is inside.
\<close>

theorem containsPoint_strict:
  "containsPoint toLocal s p =
     (- rect_width (orig (priv_texture s)) * pt_x (anchor s) < pt_x (toLocal (worldTransform s) p)
      \<and> pt_x (toLocal (worldTransform s) p)
          < - rect_width (orig (priv_texture s)) * pt_x (anchor s) + rect_width (orig (priv_texture s))
      \<and> - rect_height (orig (priv_texture s)) * pt_y (anchor s) < pt_y (toLocal (worldTransform s) p)
      \<and> pt_y (toLocal (worldTransform s) p)
          < - rect_height (orig (priv_texture s)) * pt_y (anchor s) + rect_height (orig (priv_texture s)))
   \<and> containsPoint applyInverse
        (s\<lparr>worldTransform := identity, anchor := \<lparr>pt_x = 0, pt_y = 0\<rparr>,
           priv_texture := \<lparr>orig = \<lparr>rect_x = ox, rect_y = oy, rect_width = 10, rect_height = 10\<rparr>,
                            trim = t\<rparr>\<rparr>)
        \<lparr>pt_x = 0, pt_y = 0\<rparr> = False
   \<and> containsPoint applyInverse
        (s\<lparr>worldTransform := identity, anchor := \<lparr>pt_x = 0, pt_y = 0\<rparr>,
           priv_texture := \<lparr>orig = \<lparr>rect_x = ox, rect_y = oy, rect_width = 10, rect_height = 10\<rparr>,
                            trim = t\<rparr>\<rparr>)
        \<lparr>pt_x = 10, pt_y = 10\<rparr> = False
   \<and> containsPoint applyInverse
        (s\<lparr>worldTransform := identity, anchor := \<lparr>pt_x = 0, pt_y = 0\<rparr>,
           priv_texture := \<lparr>orig = \<lparr>rect_x = ox, rect_y = oy, rect_width = 10, rect_height = 10\<rparr>,
                            trim = t\<rparr>\<rparr>)
        \<lparr>pt_x = 5, pt_y = 5\<rparr> = True"
  by (auto simp add: containsPoint_def Let_def)

subsection \<open>Local bounds\<close>

text \<open>
  C8. \<^verbatim>\<open>getLocalBounds\<close> returns the rectangle \<open>(x = -W\<cdot>ax, y = -H\<cdot>ay, width = W,
  height = H)\<close>, stored in \<^verbatim>\<open>_bounds\<close>; the trim rectangle and the world transform do
  not enter: with another trim and another transform the result is the same.
\<close>

theorem getLocalBounds_logical_box:
  "fst (getLocalBounds s) =
     \<lparr>rect_x = - rect_width (orig (priv_texture s)) * pt_x (anchor s),
      rect_y = - rect_height (orig (priv_texture s)) * pt_y (anchor s),
      rect_width = rect_width (orig (priv_texture s)),
      rect_height = rect_height (orig (priv_texture s))\<rparr>
   \<and> snd (getLocalBounds s) = s\<lparr>priv_bounds := fst (getLocalBounds s)\<rparr>
   \<and> fst (getLocalBounds (s\<lparr>worldTransform := m,
          priv_texture := (priv_texture s)\<lparr>trim := t\<rparr>\<rparr>)) = fst (getLocalBounds s)"
  by (simp add: getLocalBounds_def Let_def)

subsection \<open>Width and height\<close>

lemma js_or_sign:
  "js_or (utils_sign x) 1 = (if x = 0 then 1 else sgn x)"
  by (simp add: js_or_def utils_sign_def truthy_def sgn_real_def)

lemma abs_js_or_sign [simp]: "\<bar>js_or (utils_sign x) 1\<bar> = 1"
  by (simp add: js_or_sign sgn_real_def)

text \<open>
  A negative width is not read back: at \<open>W = 100\<close>, \<open>scaleX = 1\<close>, the write of \<open>-200\<close>
  gives \<open>scaleX = -2\<close>, the sign of the scale flipped, and a width of 200.
\<close>

theorem width_counterexample:
  "0 < rect_width (orig (priv_texture (fixture identity \<lparr>orig = frame 100 100, trim = None\<rparr>
        \<lparr>pt_x = 0, pt_y = 0\<rparr>)))
   \<and> pt_x (scale (set_width (- 200) (fixture identity \<lparr>orig = frame 100 100, trim = None\<rparr>
        \<lparr>pt_x = 0, pt_y = 0\<rparr>))) = - 2
   \<and> get_width (set_width (- 200) (fixture identity \<lparr>orig = frame 100 100, trim = None\<rparr>
        \<lparr>pt_x = 0, pt_y = 0\<rparr>)) = 200
   \<and> get_width (set_width (- 200) (fixture identity \<lparr>orig = frame 100 100, trim = None\<rparr>
        \<lparr>pt_x = 0, pt_y = 0\<rparr>)) \<noteq> - 200"
  by (simp add: get_width_def set_width_def fixture_def frame_def js_or_def utils_sign_def
      truthy_def)

text \<open>
  C6 (amended). For a logical width \<open>W > 0\<close>: reading \<^verbatim>\<open>width\<close> gives \<open>|scaleX|\<cdot>W\<close>;
  writing \<open>v\<close> sets \<open>scaleX\<close> to \<open>s\<cdot>v/W\<close>, where \<open>s\<close> is the sign of \<open>scaleX\<close>, or 1 when
  \<open>scaleX = 0\<close>, and remembers \<open>v\<close>; a read after the write gives \<open>|s\<cdot>v/W|\<cdot>W\<close>, which
  is never negative, so that it is not \<open>v\<close> when \<open>v < 0\<close>; and for \<open>v \<ge> 0\<close> the new scale
  does not have the sign opposite to \<open>s\<close>. With \<open>W = 100\<close> and \<open>scaleX = -1\<close>, the write of
  200 gives \<open>scaleX = -2\<close> and a width of 200. The same holds of \<^verbatim>\<open>height\<close> and
  \<open>scaleY\<close>. The statement follows the expressions that the code evaluates; that
  \<open>|s\<cdot>v/W|\<cdot>W\<close> is \<open>|v|\<close> is a law of exact arithmetic and is not part of it.
\<close>

theorem width_height_accessors:
  "(0 < rect_width (orig (priv_texture s)) \<longrightarrow>
      get_width s = \<bar>pt_x (scale s)\<bar> * rect_width (orig (priv_texture s))
    \<and> pt_x (scale (set_width v s))
        = (if pt_x (scale s) = 0 then 1 else sgn (pt_x (scale s))) * v
            / rect_width (orig (priv_texture s))
    \<and> priv_width (set_width v s) = v
    \<and> get_width (set_width v s)
        = \<bar>(if pt_x (scale s) = 0 then 1 else sgn (pt_x (scale s))) * v
            / rect_width (orig (priv_texture s))\<bar> * rect_width (orig (priv_texture s))
    \<and> 0 \<le> get_width (set_width v s)
    \<and> (v < 0 \<longrightarrow> get_width (set_width v s) \<noteq> v)
    \<and> (0 \<le> v \<longrightarrow>
          0 \<le> (if pt_x (scale s) = 0 then 1 else sgn (pt_x (scale s)))
                * pt_x (scale (set_width v s))))
   \<and> (0 < rect_height (orig (priv_texture s)) \<longrightarrow>
      get_height s = \<bar>pt_y (scale s)\<bar> * rect_height (orig (priv_texture s))
    \<and> pt_y (scale (set_height v s))
        = (if pt_y (scale s) = 0 then 1 else sgn (pt_y (scale s))) * v
            / rect_height (orig (priv_texture s))
    \<and> priv_height (set_height v s) = v
    \<and> get_height (set_height v s)
        = \<bar>(if pt_y (scale s) = 0 then 1 else sgn (pt_y (scale s))) * v
            / rect_height (orig (priv_texture s))\<bar> * rect_height (orig (priv_texture s))
    \<and> 0 \<le> get_height (set_height v s)
    \<and> (v < 0 \<longrightarrow> get_height (set_height v s) \<noteq> v)
    \<and> (0 \<le> v \<longrightarrow>
          0 \<le> (if pt_y (scale s) = 0 then 1 else sgn (pt_y (scale s)))
                * pt_y (scale (set_height v s))))
   \<and> pt_x (scale (set_width 200
        (s\<lparr>scale := \<lparr>pt_x = - 1, pt_y = sy\<rparr>,
           priv_texture := \<lparr>orig = \<lparr>rect_x = ox, rect_y = oy, rect_width = 100, rect_height = h\<rparr>,
                            trim = t\<rparr>\<rparr>))) = - 2
   \<and> get_width (set_width 200
        (s\<lparr>scale := \<lparr>pt_x = - 1, pt_y = sy\<rparr>,
           priv_texture := \<lparr>orig = \<lparr>rect_x = ox, rect_y = oy, rect_width = 100, rect_height = h\<rparr>,
                            trim = t\<rparr>\<rparr>)) = 200"
proof -
  have rest: "get_width s = \<bar>pt_x (scale s)\<bar> * rect_width (orig (priv_texture s))"
    "pt_x (scale (set_width v s))
        = (if pt_x (scale s) = 0 then 1 else sgn (pt_x (scale s))) * v
            / rect_width (orig (priv_texture s))"
    "priv_width (set_width v s) = v"
    "get_width (set_width v s)
        = \<bar>(if pt_x (scale s) = 0 then 1 else sgn (pt_x (scale s))) * v
            / rect_width (orig (priv_texture s))\<bar> * rect_width (orig (priv_texture s))"
    "get_height s = \<bar>pt_y (scale s)\<bar> * rect_height (orig (priv_texture s))"
    "pt_y (scale (set_height v s))
        = (if pt_y (scale s) = 0 then 1 else sgn (pt_y (scale s))) * v
            / rect_height (orig (priv_texture s))"
    "priv_height (set_height v s) = v"
    "get_height (set_height v s)
        = \<bar>(if pt_y (scale s) = 0 then 1 else sgn (pt_y (scale s))) * v
            / rect_height (orig (priv_texture s))\<bar> * rect_height (orig (priv_texture s))"
    by (simp_all add: get_width_def set_width_def get_height_def set_height_def Let_def js_or_sign)
  have w0: "0 \<le> get_width (set_width v s)" if "0 < rect_width (orig (priv_texture s))"
    using that by (simp add: get_width_def set_width_def Let_def)
  have h0: "0 \<le> get_height (set_height v s)" if "0 < rect_height (orig (priv_texture s))"
    using that by (simp add: get_height_def set_height_def Let_def)
  have ws: "0 \<le> (if pt_x (scale s) = 0 then 1 else sgn (pt_x (scale s)))
                * pt_x (scale (set_width v s))"
    if "0 < rect_width (orig (priv_texture s))" "0 \<le> v"
    using that by (simp add: rest(2) sgn_real_def)
  have hs: "0 \<le> (if pt_y (scale s) = 0 then 1 else sgn (pt_y (scale s)))
                * pt_y (scale (set_height v s))"
    if "0 < rect_height (orig (priv_texture s))" "0 \<le> v"
    using that by (simp add: rest(6) sgn_real_def)
  have ex: "pt_x (scale (set_width 200
        (s\<lparr>scale := \<lparr>pt_x = - 1, pt_y = sy\<rparr>,
           priv_texture := \<lparr>orig = \<lparr>rect_x = ox, rect_y = oy, rect_width = 100, rect_height = h\<rparr>,
                            trim = t\<rparr>\<rparr>))) = - 2"
     "get_width (set_width 200
        (s\<lparr>scale := \<lparr>pt_x = - 1, pt_y = sy\<rparr>,
           priv_texture := \<lparr>orig = \<lparr>rect_x = ox, rect_y = oy, rect_width = 100, rect_height = h\<rparr>,
                            trim = t\<rparr>\<rparr>)) = 200"
    by (simp_all add: get_width_def set_width_def Let_def js_or_sign)
  have wneg: "get_width (set_width v s) \<noteq> v"
    if "0 < rect_width (orig (priv_texture s))" "v < 0"
    using w0 [OF that(1)] that(2) by linarith
  have hneg: "get_height (set_height v s) \<noteq> v"
    if "0 < rect_height (orig (priv_texture s))" "v < 0"
    using h0 [OF that(1)] that(2) by linarith
  show ?thesis
    using w0 h0 ws hs wneg hneg rest ex by blast
qed

theorem width_height_accessors_witness:
  "0 < rect_width (orig (priv_texture
        ((fixture identity \<lparr>orig = frame 100 50, trim = None\<rparr> \<lparr>pt_x = 0, pt_y = 0\<rparr>)
           \<lparr>scale := \<lparr>pt_x = - 1, pt_y = 0\<rparr>\<rparr>)))
   \<and> 0 < rect_height (orig (priv_texture
        ((fixture identity \<lparr>orig = frame 100 50, trim = None\<rparr> \<lparr>pt_x = 0, pt_y = 0\<rparr>)
           \<lparr>scale := \<lparr>pt_x = - 1, pt_y = 0\<rparr>\<rparr>)))
   \<and> (0::real) \<le> 200 \<and> (- 200::real) < 0
   \<and> get_width ((fixture identity \<lparr>orig = frame 100 50, trim = None\<rparr> \<lparr>pt_x = 0, pt_y = 0\<rparr>)
           \<lparr>scale := \<lparr>pt_x = - 1, pt_y = 0\<rparr>\<rparr>) = 100
   \<and> pt_x (scale (set_width 200
        ((fixture identity \<lparr>orig = frame 100 50, trim = None\<rparr> \<lparr>pt_x = 0, pt_y = 0\<rparr>)
           \<lparr>scale := \<lparr>pt_x = - 1, pt_y = 0\<rparr>\<rparr>))) = - 2
   \<and> get_width (set_width 200
        ((fixture identity \<lparr>orig = frame 100 50, trim = None\<rparr> \<lparr>pt_x = 0, pt_y = 0\<rparr>)
           \<lparr>scale := \<lparr>pt_x = - 1, pt_y = 0\<rparr>\<rparr>)) = 200
   \<and> get_width (set_width (- 200)
        ((fixture identity \<lparr>orig = frame 100 50, trim = None\<rparr> \<lparr>pt_x = 0, pt_y = 0\<rparr>)
           \<lparr>scale := \<lparr>pt_x = - 1, pt_y = 0\<rparr>\<rparr>)) \<noteq> - 200
   \<and> get_height ((fixture identity \<lparr>orig = frame 100 50, trim = None\<rparr> \<lparr>pt_x = 0, pt_y = 0\<rparr>)
           \<lparr>scale := \<lparr>pt_x = - 1, pt_y = 0\<rparr>\<rparr>) = 0
   \<and> pt_y (scale (set_height 200
        ((fixture identity \<lparr>orig = frame 100 50, trim = None\<rparr> \<lparr>pt_x = 0, pt_y = 0\<rparr>)
           \<lparr>scale := \<lparr>pt_x = - 1, pt_y = 0\<rparr>\<rparr>))) = 4
   \<and> get_height (set_height 200
        ((fixture identity \<lparr>orig = frame 100 50, trim = None\<rparr> \<lparr>pt_x = 0, pt_y = 0\<rparr>)
           \<lparr>scale := \<lparr>pt_x = - 1, pt_y = 0\<rparr>\<rparr>)) = 200
   \<and> get_height (set_height (- 200)
        ((fixture identity \<lparr>orig = frame 100 50, trim = None\<rparr> \<lparr>pt_x = 0, pt_y = 0\<rparr>)
           \<lparr>scale := \<lparr>pt_x = - 1, pt_y = 0\<rparr>\<rparr>)) \<noteq> - 200"
  using width_height_accessors
    [of "(fixture identity \<lparr>orig = frame 100 50, trim = None\<rparr> \<lparr>pt_x = 0, pt_y = 0\<rparr>)
           \<lparr>scale := \<lparr>pt_x = - 1, pt_y = 0\<rparr>\<rparr>" 200]
    width_height_accessors
    [of "(fixture identity \<lparr>orig = frame 100 50, trim = None\<rparr> \<lparr>pt_x = 0, pt_y = 0\<rparr>)
           \<lparr>scale := \<lparr>pt_x = - 1, pt_y = 0\<rparr>\<rparr>" "- 200"]
  by (simp add: fixture_def frame_def)

subsection \<open>Reapplying the remembered size\<close>

text \<open>
  Two sprites on which \<^verbatim>\<open>_onTextureUpdate\<close> and the setter's formula part: after
  \<^verbatim>\<open>width = 0; scale.x = 3\<close> the remembered width is 0 and the scale stays 3, where the
  setter's formula gives 0; after \<^verbatim>\<open>width = 200; scale.x = 0\<close> the scale stays 0, where
  the setter's formula gives 2.
\<close>

theorem onTextureUpdate_counterexample:
  "priv_width ((set_width 0
        (fixture identity \<lparr>orig = frame 100 100, trim = None\<rparr> \<lparr>pt_x = 0, pt_y = 0\<rparr>))
        \<lparr>scale := \<lparr>pt_x = 3, pt_y = 1\<rparr>\<rparr>) = 0
   \<and> pt_x (scale (onTextureUpdate ((set_width 0
        (fixture identity \<lparr>orig = frame 100 100, trim = None\<rparr> \<lparr>pt_x = 0, pt_y = 0\<rparr>))
        \<lparr>scale := \<lparr>pt_x = 3, pt_y = 1\<rparr>\<rparr>))) = 3
   \<and> pt_x (scale (set_width 0 ((set_width 0
        (fixture identity \<lparr>orig = frame 100 100, trim = None\<rparr> \<lparr>pt_x = 0, pt_y = 0\<rparr>))
        \<lparr>scale := \<lparr>pt_x = 3, pt_y = 1\<rparr>\<rparr>))) = 0
   \<and> priv_width ((set_width 200
        (fixture identity \<lparr>orig = frame 100 100, trim = None\<rparr> \<lparr>pt_x = 0, pt_y = 0\<rparr>))
        \<lparr>scale := \<lparr>pt_x = 0, pt_y = 1\<rparr>\<rparr>) = 200
   \<and> pt_x (scale (onTextureUpdate ((set_width 200
        (fixture identity \<lparr>orig = frame 100 100, trim = None\<rparr> \<lparr>pt_x = 0, pt_y = 0\<rparr>))
        \<lparr>scale := \<lparr>pt_x = 0, pt_y = 1\<rparr>\<rparr>))) = 0
   \<and> pt_x (scale (set_width 200 ((set_width 200
        (fixture identity \<lparr>orig = frame 100 100, trim = None\<rparr> \<lparr>pt_x = 0, pt_y = 0\<rparr>))
        \<lparr>scale := \<lparr>pt_x = 0, pt_y = 1\<rparr>\<rparr>))) = 2"
  by (simp add: onTextureUpdate_def set_width_def Let_def fixture_def frame_def js_or_def
      utils_sign_def truthy_def)

text \<open>
  C7 (amended). When \<^verbatim>\<open>_onTextureUpdate\<close> runs with a remembered width other than 0, a
  scale other than 0 and a logical width other than 0, it sets \<open>scaleX\<close> to what the
  \<^verbatim>\<open>width\<close> setter computes for the remembered width against the texture's logical
  frame, \<open>sign(scaleX)\<cdot>width/W\<close>. A remembered width of 0 stands for "never written" and
  leaves \<open>scaleX\<close> as it is. The same holds of the height and \<open>scaleY\<close>. The remembered
  values and the texture stay, and \<^verbatim>\<open>textureDirty\<close> is set.
\<close>

theorem onTextureUpdate_reapplies:
  "(priv_width s \<noteq> 0 \<and> pt_x (scale s) \<noteq> 0 \<and> rect_width (orig (priv_texture s)) \<noteq> 0 \<longrightarrow>
      pt_x (scale (onTextureUpdate s)) = pt_x (scale (set_width (priv_width s) s))
    \<and> pt_x (scale (onTextureUpdate s))
        = sgn (pt_x (scale s)) * priv_width s / rect_width (orig (priv_texture s)))
   \<and> (priv_width s = 0 \<longrightarrow> pt_x (scale (onTextureUpdate s)) = pt_x (scale s))
   \<and> (priv_height s \<noteq> 0 \<and> pt_y (scale s) \<noteq> 0 \<and> rect_height (orig (priv_texture s)) \<noteq> 0 \<longrightarrow>
      pt_y (scale (onTextureUpdate s)) = pt_y (scale (set_height (priv_height s) s))
    \<and> pt_y (scale (onTextureUpdate s))
        = sgn (pt_y (scale s)) * priv_height s / rect_height (orig (priv_texture s)))
   \<and> (priv_height s = 0 \<longrightarrow> pt_y (scale (onTextureUpdate s)) = pt_y (scale s))
   \<and> priv_width (onTextureUpdate s) = priv_width s
   \<and> priv_height (onTextureUpdate s) = priv_height s
   \<and> priv_texture (onTextureUpdate s) = priv_texture s
   \<and> textureDirty (onTextureUpdate s)"
  by (simp add: onTextureUpdate_def set_width_def set_height_def Let_def js_or_def
      utils_sign_def truthy_def sgn_real_def)

theorem onTextureUpdate_reapplies_witness:
  "priv_width ((set_height 30 (set_width 200
        (fixture identity \<lparr>orig = frame 100 100, trim = None\<rparr> \<lparr>pt_x = 0, pt_y = 0\<rparr>)))
        \<lparr>scale := \<lparr>pt_x = - 2, pt_y = 0.3\<rparr>,
         priv_texture := \<lparr>orig = frame 50 60, trim = None\<rparr>\<rparr>) = 200
   \<and> priv_height ((set_height 30 (set_width 200
        (fixture identity \<lparr>orig = frame 100 100, trim = None\<rparr> \<lparr>pt_x = 0, pt_y = 0\<rparr>)))
        \<lparr>scale := \<lparr>pt_x = - 2, pt_y = 0.3\<rparr>,
         priv_texture := \<lparr>orig = frame 50 60, trim = None\<rparr>\<rparr>) = 30
   \<and> scale ((set_height 30 (set_width 200
        (fixture identity \<lparr>orig = frame 100 100, trim = None\<rparr> \<lparr>pt_x = 0, pt_y = 0\<rparr>)))
        \<lparr>scale := \<lparr>pt_x = - 2, pt_y = 0.3\<rparr>,
         priv_texture := \<lparr>orig = frame 50 60, trim = None\<rparr>\<rparr>) = \<lparr>pt_x = - 2, pt_y = 0.3\<rparr>
   \<and> orig (priv_texture ((set_height 30 (set_width 200
        (fixture identity \<lparr>orig = frame 100 100, trim = None\<rparr> \<lparr>pt_x = 0, pt_y = 0\<rparr>)))
        \<lparr>scale := \<lparr>pt_x = - 2, pt_y = 0.3\<rparr>,
         priv_texture := \<lparr>orig = frame 50 60, trim = None\<rparr>\<rparr>)) = frame 50 60
   \<and> pt_x (scale (onTextureUpdate ((set_height 30 (set_width 200
        (fixture identity \<lparr>orig = frame 100 100, trim = None\<rparr> \<lparr>pt_x = 0, pt_y = 0\<rparr>)))
        \<lparr>scale := \<lparr>pt_x = - 2, pt_y = 0.3\<rparr>,
         priv_texture := \<lparr>orig = frame 50 60, trim = None\<rparr>\<rparr>))) = - 4
   \<and> pt_y (scale (onTextureUpdate ((set_height 30 (set_width 200
        (fixture identity \<lparr>orig = frame 100 100, trim = None\<rparr> \<lparr>pt_x = 0, pt_y = 0\<rparr>)))
        \<lparr>scale := \<lparr>pt_x = - 2, pt_y = 0.3\<rparr>,
         priv_texture := \<lparr>orig = frame 50 60, trim = None\<rparr>\<rparr>))) = 1 / 2
   \<and> priv_width (fixture identity \<lparr>orig = frame 100 100, trim = None\<rparr> \<lparr>pt_x = 0, pt_y = 0\<rparr>) = 0
   \<and> priv_height (fixture identity \<lparr>orig = frame 100 100, trim = None\<rparr> \<lparr>pt_x = 0, pt_y = 0\<rparr>) = 0
   \<and> scale (onTextureUpdate
        (fixture identity \<lparr>orig = frame 100 100, trim = None\<rparr> \<lparr>pt_x = 0, pt_y = 0\<rparr>))
       = \<lparr>pt_x = 1, pt_y = 1\<rparr>"
  using onTextureUpdate_reapplies
    [of "(set_height 30 (set_width 200
        (fixture identity \<lparr>orig = frame 100 100, trim = None\<rparr> \<lparr>pt_x = 0, pt_y = 0\<rparr>)))
        \<lparr>scale := \<lparr>pt_x = - 2, pt_y = 0.3\<rparr>,
         priv_texture := \<lparr>orig = frame 50 60, trim = None\<rparr>\<rparr>"]
    onTextureUpdate_reapplies
    [of "fixture identity \<lparr>orig = frame 100 100, trim = None\<rparr> \<lparr>pt_x = 0, pt_y = 0\<rparr>"]
  by (simp add: set_width_def set_height_def Let_def fixture_def frame_def js_or_sign
      Point.equality)

subsection \<open>Bounds\<close>

text \<open>The unrolled comparisons of \<^verbatim>\<open>getBounds\<close> are minima and maxima.\<close>

lemma if_less_min: "(if a < b then a else b) = min a (b::real)"
  by (simp add: min_def)

lemma if_greater_max: "(if a > b then a else b) = max a (b::real)"
  by (simp add: max_def)

lemma Min_4: "Min {x1, x2, x3, x4} = min x4 (min x3 (min x2 (x1::real)))"
  by (simp add: min.commute min.left_commute)

lemma Max_4: "Max {x1, x2, x3, x4} = max x4 (max x3 (max x2 (x1::real)))"
  by (simp add: max.commute max.left_commute)

lemma calculateBoundsVertices_vertexDirty:
  "calculateBoundsVertices (s\<lparr>vertexDirty := b\<rparr>) = (calculateBoundsVertices s)\<lparr>vertexDirty := b\<rparr>"
  by (simp add: calculateBoundsVertices_def Let_def)

lemma calculateBoundsVertices_fields [simp]:
  "children_length (calculateBoundsVertices s) = children_length s"
  "priv_bounds (calculateBoundsVertices s) = priv_bounds s"
  by (simp_all add: calculateBoundsVertices_def Let_def)

lemma rect_update_all:
  "r\<lparr>rect_x := a\<rparr>\<lparr>rect_width := b\<rparr>\<lparr>rect_y := c\<rparr>\<lparr>rect_height := d\<rparr>
     = \<lparr>rect_x = a, rect_y = c, rect_width = b, rect_height = (d::real)\<rparr>"
  by (cases r) simp

lemma nth_8:
  "[a0, a1, a2, a3, a4, a5, a6, a7] ! 0 = a0"
  "[a0, a1, a2, a3, a4, a5, a6, a7] ! 1 = a1"
  "[a0, a1, a2, a3, a4, a5, a6, a7] ! 2 = a2"
  "[a0, a1, a2, a3, a4, a5, a6, a7] ! 3 = a3"
  "[a0, a1, a2, a3, a4, a5, a6, a7] ! 4 = a4"
  "[a0, a1, a2, a3, a4, a5, a6, a7] ! 5 = a5"
  "[a0, a1, a2, a3, a4, a5, a6, a7] ! 6 = a6"
  "[a0, a1, a2, a3, a4, a5, a6, a7] ! 7 = a7"
  by simp_all

lemma aggregate_None:
  "aggregate [x1, y1, x2, y2, x3, y3, x4, y4] None =
     \<lparr>rect_x = min x4 (min x3 (min x2 x1)),
      rect_y = min y4 (min y3 (min y2 y1)),
      rect_width = max x4 (max x3 (max x2 x1)) - min x4 (min x3 (min x2 x1)),
      rect_height = max y4 (max y3 (max y2 y1)) - min y4 (min y3 (min y2 y1))\<rparr>"
  by (simp only: aggregate_def Let_def option.case nth_8 Min_4 Max_4)

lemma aggregate_Some:
  "aggregate [x1, y1, x2, y2, x3, y3, x4, y4] (Some c) =
     \<lparr>rect_x = min (min x4 (min x3 (min x2 x1))) (rect_x c),
      rect_y = min (min y4 (min y3 (min y2 y1))) (rect_y c),
      rect_width = max (max x4 (max x3 (max x2 x1))) (rect_x c + rect_width c)
                    - min (min x4 (min x3 (min x2 x1))) (rect_x c),
      rect_height = max (max y4 (max y3 (max y2 y1))) (rect_y c + rect_height c)
                    - min (min y4 (min y3 (min y2 y1))) (rect_y c)\<rparr>"
  by (simp only: aggregate_def Let_def option.case nth_8 Min_4 Max_4)

lemma vertexDirty_update_fields:
  "children_length (r\<lparr>vertexDirty := b\<rparr>) = children_length r"
  "vertexData (r\<lparr>vertexDirty := b\<rparr>) = vertexData r"
  "priv_bounds (r\<lparr>vertexDirty := b\<rparr>) = priv_bounds r"
  "priv_bounds (r\<lparr>priv_bounds := bs, priv_currentBounds := cb\<rparr>) = bs"
  by simp_all

lemma getBounds_Null:
  assumes "priv_currentBounds s = Null" and "length (vertexData s) = 16"
  shows "fst (getBounds cgb s) =
      aggregate (drop 8 (vertexData (calculateBoundsVertices s)))
        (if children_length s = 0 then None
         else Some (cgb (calculateBoundsVertices (s\<lparr>vertexDirty := False\<rparr>))))"
proof -
  have len: "length (vertexData (calculateBoundsVertices s)) = 16"
    using assms(2) by simp
  show ?thesis
  proof (cases "children_length s = 0")
    case True
    show ?thesis
      unfolding drop_8_nth [OF len]
      apply (simp only: getBounds_def BoundsRef.case assms)
      apply (simp only: Let_def if_less_min if_greater_max calculateBoundsVertices_vertexDirty)
      apply (simp only: vertexDirty_update_fields calculateBoundsVertices_fields True
          if_True if_False simp_thms split_conv fst_conv rect_update_all aggregate_None)
      done
  next
    case False
    show ?thesis
      unfolding drop_8_nth [OF len]
      apply (simp only: getBounds_def BoundsRef.case assms)
      apply (simp only: Let_def if_less_min if_greater_max calculateBoundsVertices_vertexDirty)
      apply (simp only: vertexDirty_update_fields calculateBoundsVertices_fields False
          if_True if_False simp_thms split_conv fst_conv rect_update_all aggregate_Some)
      done
  qed
qed


lemma memo_update_fields:
  "vertexData (r\<lparr>priv_bounds := bs, priv_currentBounds := cb\<rparr>) = vertexData r"
  "priv_currentBounds (r\<lparr>priv_bounds := bs, priv_currentBounds := cb\<rparr>) = cb"
  by simp_all

lemma getBounds_Null_state:
  assumes "priv_currentBounds s = Null"
  shows "priv_bounds (snd (getBounds cgb s)) = fst (getBounds cgb s)"
    and "priv_currentBounds (snd (getBounds cgb s)) = OwnBounds"
    and "vertexData (snd (getBounds cgb s)) = vertexData (calculateBoundsVertices s)"
  by (simp_all only: getBounds_def BoundsRef.case assms Let_def case_prod_beta fst_conv snd_conv
      memo_update_fields calculateBoundsVertices_vertexDirty vertexDirty_update_fields)


lemma getBounds_example:
  assumes "length (vertexData s) = 16"
  shows "fst (getBounds (\<lambda>_. c) (calculateVertices
        (s\<lparr>worldTransform := identity, anchor := \<lparr>pt_x = 0, pt_y = 0\<rparr>,
           priv_texture := \<lparr>orig = \<lparr>rect_x = ox, rect_y = oy, rect_width = 8, rect_height = 8\<rparr>,
                            trim = None\<rparr>,
           children_length := n, priv_currentBounds := Null\<rparr>)))
    = aggregate [0, 0, 8, 0, 8, 8, 0, 8] (if n = 0 then None else Some c)"
proof -
  let ?e = "calculateVertices
        (s\<lparr>worldTransform := identity, anchor := \<lparr>pt_x = 0, pt_y = 0\<rparr>,
           priv_texture := \<lparr>orig = \<lparr>rect_x = ox, rect_y = oy, rect_width = 8, rect_height = 8\<rparr>,
                            trim = None\<rparr>,
           children_length := n, priv_currentBounds := Null\<rparr>)"
  have null: "priv_currentBounds ?e = Null" and len: "length (vertexData ?e) = 16"
    and kids: "children_length ?e = n" and trim: "trim (priv_texture ?e) = None"
    using assms by (simp_all add: calculateVertices_fields)
  have "drop 8 (vertexData (calculateBoundsVertices ?e)) = take 8 (vertexData ?e)"
    using len trim by (simp add: drop_8_calculateBoundsVertices_copy)
  also have "\<dots> = [0, 0, 8, 0, 8, 8, 0, 8]"
    using assms by (subst take_8_calculateVertices_None) (simp_all add: quad_eq identity_def)
  finally have quad8: "drop 8 (vertexData (calculateBoundsVertices ?e)) = [0, 0, 8, 0, 8, 8, 0, 8]" .
  show ?thesis
    unfolding getBounds_Null [OF null len] quad8 kids ..
qed

text \<open>
  With a memoized rectangle \<^verbatim>\<open>getBounds\<close> returns the memo and computes nothing. A sprite
  with a frame of 8 by 8 and no child memoizes \<open>(0, 0, 8, 8)\<close>; once it has a child, with
  the child rectangle \<open>(5, 5, 10, 10)\<close>, and the memo has not been cleared,
  \<^verbatim>\<open>getBounds\<close> still returns \<open>(0, 0, 8, 8)\<close>, where the quad in slots 8 to 15 widened
  by the child rectangle gives \<open>(0, 0, 15, 15)\<close>.
\<close>

theorem getBounds_counterexample:
  "children_length ((snd (getBounds (\<lambda>_. frame 0 0) (calculateVertices
       (fixture identity \<lparr>orig = frame 8 8, trim = None\<rparr> \<lparr>pt_x = 0, pt_y = 0\<rparr>))))
       \<lparr>children_length := 1\<rparr>) = 1
   \<and> fst (getBounds (\<lambda>_. \<lparr>rect_x = 5, rect_y = 5, rect_width = 10, rect_height = 10\<rparr>)
       ((snd (getBounds (\<lambda>_. frame 0 0) (calculateVertices
       (fixture identity \<lparr>orig = frame 8 8, trim = None\<rparr> \<lparr>pt_x = 0, pt_y = 0\<rparr>))))
       \<lparr>children_length := 1\<rparr>))
    = \<lparr>rect_x = 0, rect_y = 0, rect_width = 8, rect_height = 8\<rparr>
   \<and> drop 8 (vertexData
       ((snd (getBounds (\<lambda>_. frame 0 0) (calculateVertices
       (fixture identity \<lparr>orig = frame 8 8, trim = None\<rparr> \<lparr>pt_x = 0, pt_y = 0\<rparr>))))
       \<lparr>children_length := 1\<rparr>))
    = [0, 0, 8, 0, 8, 8, 0, 8]
   \<and> aggregate [0, 0, 8, 0, 8, 8, 0, 8]
       (Some \<lparr>rect_x = 5, rect_y = 5, rect_width = 10, rect_height = 10\<rparr>)
    = \<lparr>rect_x = 0, rect_y = 0, rect_width = 15, rect_height = 15\<rparr>"
  by (simp add: getBounds_def calculateBoundsVertices_def
      calculateVertices_def fixture_def frame_def identity_def Let_def numeral_eq_Suc
      aggregate_def)

text \<open>
  C4 (amended). When no rectangle is memoized in \<^verbatim>\<open>_currentBounds\<close>, \<^verbatim>\<open>getBounds\<close>
  returns the axis-aligned rectangle \<open>(x = minX, y = minY, width = maxX - minX,
  height = maxY - minY)\<close> of the four corner points of the bounds quad, which
  \<^verbatim>\<open>calculateBoundsVertices\<close> has just put in slots 8 to 15, widened by the child
  rectangle's \<open>childX\<close>, \<open>childX + childWidth\<close>, \<open>childY\<close>, \<open>childY + childHeight\<close> exactly
  when the sprite has a child; it stores the rectangle in \<^verbatim>\<open>_bounds\<close> and memoizes it.
  The own rectangle \<open>(0, 0, 8, 8)\<close> with the child rectangle \<open>(5, 5, 10, 10)\<close> gives
  \<open>(0, 0, 15, 15)\<close>, and \<open>(0, 0, 8, 8)\<close> without a child.
\<close>

theorem getBounds_aggregate:
  assumes "priv_currentBounds s = Null" and "length (vertexData s) = 16"
  shows "fst (getBounds cgb s) =
      aggregate (drop 8 (vertexData (snd (getBounds cgb s))))
        (if children_length s = 0 then None
         else Some (cgb (calculateBoundsVertices (s\<lparr>vertexDirty := False\<rparr>))))
    \<and> vertexData (snd (getBounds cgb s)) = vertexData (calculateBoundsVertices s)
    \<and> priv_bounds (snd (getBounds cgb s)) = fst (getBounds cgb s)
    \<and> priv_currentBounds (snd (getBounds cgb s)) = OwnBounds
    \<and> fst (getBounds (\<lambda>_. \<lparr>rect_x = 5, rect_y = 5, rect_width = 10, rect_height = 10\<rparr>)
        (calculateVertices
          (s\<lparr>worldTransform := identity, anchor := \<lparr>pt_x = 0, pt_y = 0\<rparr>,
             priv_texture := \<lparr>orig = \<lparr>rect_x = ox, rect_y = oy, rect_width = 8, rect_height = 8\<rparr>,
                              trim = None\<rparr>,
             children_length := 1, priv_currentBounds := Null\<rparr>)))
      = \<lparr>rect_x = 0, rect_y = 0, rect_width = 15, rect_height = 15\<rparr>
    \<and> fst (getBounds (\<lambda>_. \<lparr>rect_x = 5, rect_y = 5, rect_width = 10, rect_height = 10\<rparr>)
        (calculateVertices
          (s\<lparr>worldTransform := identity, anchor := \<lparr>pt_x = 0, pt_y = 0\<rparr>,
             priv_texture := \<lparr>orig = \<lparr>rect_x = ox, rect_y = oy, rect_width = 8, rect_height = 8\<rparr>,
                              trim = None\<rparr>,
             children_length := 0, priv_currentBounds := Null\<rparr>)))
      = \<lparr>rect_x = 0, rect_y = 0, rect_width = 8, rect_height = 8\<rparr>"
proof -
  note state = getBounds_Null_state [OF assms(1), of cgb]
  have "fst (getBounds cgb s) =
      aggregate (drop 8 (vertexData (snd (getBounds cgb s))))
        (if children_length s = 0 then None
         else Some (cgb (calculateBoundsVertices (s\<lparr>vertexDirty := False\<rparr>))))"
    unfolding state(3) using assms by (rule getBounds_Null)
  moreover
  have "aggregate [0, 0, 8, 0, 8, 8, 0, 8]
          (Some \<lparr>rect_x = 5, rect_y = 5, rect_width = 10, rect_height = 10\<rparr>)
        = \<lparr>rect_x = 0, rect_y = 0, rect_width = 15, rect_height = 15\<rparr>"
    and "aggregate [0, 0, 8, 0, 8, 8, 0, 8] None
        = \<lparr>rect_x = 0, rect_y = 0, rect_width = 8, rect_height = 8\<rparr>"
    by (simp_all add: aggregate_Some aggregate_None)
  ultimately show ?thesis
    using state by (simp add: getBounds_example [OF assms(2)])
qed

theorem getBounds_aggregate_witness:
  "priv_currentBounds ((calculateVertices
       (fixture (translation 100 50) \<lparr>orig = frame 8 8, trim = None\<rparr> \<lparr>pt_x = 0, pt_y = 0\<rparr>))
       \<lparr>children_length := 2\<rparr>) = Null
   \<and> length (vertexData ((calculateVertices
       (fixture (translation 100 50) \<lparr>orig = frame 8 8, trim = None\<rparr> \<lparr>pt_x = 0, pt_y = 0\<rparr>))
       \<lparr>children_length := 2\<rparr>)) = 16
   \<and> fst (getBounds (\<lambda>_. \<lparr>rect_x = 90, rect_y = 55, rect_width = 30, rect_height = 1\<rparr>)
       ((calculateVertices
       (fixture (translation 100 50) \<lparr>orig = frame 8 8, trim = None\<rparr> \<lparr>pt_x = 0, pt_y = 0\<rparr>))
       \<lparr>children_length := 2\<rparr>))
      = \<lparr>rect_x = 90, rect_y = 50, rect_width = 30, rect_height = 8\<rparr>
   \<and> aggregate (drop 8 (vertexData (snd
       (getBounds (\<lambda>_. \<lparr>rect_x = 90, rect_y = 55, rect_width = 30, rect_height = 1\<rparr>)
       ((calculateVertices
       (fixture (translation 100 50) \<lparr>orig = frame 8 8, trim = None\<rparr> \<lparr>pt_x = 0, pt_y = 0\<rparr>))
       \<lparr>children_length := 2\<rparr>)))))
       (Some \<lparr>rect_x = 90, rect_y = 55, rect_width = 30, rect_height = 1\<rparr>)
      = \<lparr>rect_x = 90, rect_y = 50, rect_width = 30, rect_height = 8\<rparr>"
  using getBounds_aggregate
    [of "(calculateVertices
       (fixture (translation 100 50) \<lparr>orig = frame 8 8, trim = None\<rparr> \<lparr>pt_x = 0, pt_y = 0\<rparr>))
       \<lparr>children_length := 2\<rparr>"
       "\<lambda>_. \<lparr>rect_x = 90, rect_y = 55, rect_width = 30, rect_height = 1\<rparr>"]
  by (simp add: getBounds_def calculateBoundsVertices_def
      calculateVertices_def fixture_def frame_def translation_def Let_def numeral_eq_Suc
      aggregate_Some)

end
